theory Spec2Isabelle
  imports Main "HOL-Library.Word" "HOL-Library.AList"
begin

section \<open>Data model\<close>

text \<open>
  The pgx connection provider of pgdbtemplate (connection_provider.go, options.go).
  The provider keeps one pgxpool pool per database name in a map guarded by a
  read/write mutex.  Each exported operation is a state transformer, the code between a
  Lock and its deferred Unlock being one step; callers of \<open>Connect\<close> that run at the
  same time are modelled further down as schedules of its two locked sections.

  Go's \<open>int32\<close> is \<open>32 word\<close> read through \<open>sint\<close>; \<open>time.Duration\<close> (an
  \<open>int64\<close>) is \<open>64 word\<close>.  A \<open>*pgxpool.Pool\<close> is the address of a pool, a natural
  number handed out in allocation order.  The hook \<open>AfterConnect\<close> is a Go function
  value or nil: an opaque identifier or \<open>None\<close>.
\<close>

type_synonym int32 = "32 word"
type_synonym duration = "64 word"
type_synonym pool = nat
type_synonym hook = nat

text \<open>
  \<open>pgxpool.Config\<close>, restricted to the fields the provider reads or writes.  What
  \<open>pgxpool.ParseConfig\<close> derives from the connection string besides them is kept in
  \<open>ConnConfig\<close>.
\<close>

record Config =
  ConnConfig :: string
  MaxConns :: int32
  MinConns :: int32
  MaxConnLifetime :: duration
  MaxConnIdleTime :: duration
  AfterConnect :: "hook option"

text \<open>The zero value of \<open>pgxpool.Config\<close>, which a fresh provider starts from.\<close>

definition zero_Config :: Config where
  "zero_Config =
     \<lparr>ConnConfig = [], MaxConns = 0, MinConns = 0, MaxConnLifetime = 0,
      MaxConnIdleTime = 0, AfterConnect = None\<rparr>"

text \<open>
  \<open>ConnectionProvider\<close>: the connection-string builder, the pool configuration set by
  the options, and the registry.  The registry is the Go map \<open>pools\<close>, here an
  association list read with \<open>map_of\<close>, written with \<open>AList.update\<close> and
  \<open>AList.delete\<close>; the list order is the order in which \<open>Close\<close> ranges over it
  (Go leaves that order open, and no statement below depends on it).
\<close>

record ConnectionProvider =
  connectionStringFunc :: "string \<Rightarrow> string"
  poolConfig :: Config
  pools :: "(string \<times> pool) list"

text \<open>
  \<open>context.Context\<close> as far as the tests use it: the background context and one
  that is already cancelled.
\<close>

datatype "context" = Background | Cancelled

text \<open>
  Every call the provider makes into caller-supplied or driver code, in order.  The log
  is how the statements below say that a call was made, or that none was.
\<close>

datatype event =
    CallConnectionStringFunc string
  | CallParseConfig string
  | CallConnectConfig Config
  | CallPing pool
  | CallClose pool

text \<open>
  The driver \<open>pgxpool\<close> is not part of the repository: its three entry points are
  parameters.  \<open>ParseConfig\<close> gives an error message or a configuration;
  \<open>ConnectConfig\<close> and \<open>Ping\<close> give \<open>None\<close> on success and the error message
  otherwise, and may depend on everything that happened so far (the log) since a server
  can come and go between two calls.
\<close>

record pgxpool =
  ParseConfig :: "string \<Rightarrow> string + Config"
  ConnectConfig :: "event list \<Rightarrow> context \<Rightarrow> Config \<Rightarrow> string option"
  Ping :: "event list \<Rightarrow> context \<Rightarrow> pool \<Rightarrow> string option"

text \<open>
  The state an operation runs in: the provider, the next free pool address and the log.
\<close>

record world =
  prov :: ConnectionProvider
  next_pool :: pool
  trace :: "event list"

text \<open>
  \<open>DatabaseConnection\<close>.  There is one provider in a \<open>world\<close>, so the back pointer
  \<open>provider\<close> is either nil or that provider.  \<open>Pool\<close> is a pool that exists: the
  handles \<open>Connect\<close> makes and the ones the tests build by hand all carry one.
\<close>

datatype provider_ptr = ThisProvider

record DatabaseConnection =
  Pool :: pool
  provider :: "provider_ptr option"
  dbName :: string

section \<open>Errors of \<open>Connect\<close>\<close>

text \<open>
  The four \<open>fmt.Errorf\<close> calls of \<open>Connect\<close>, each with the value it formats, and the
  message each produces.
\<close>

datatype connect_error =
    ParseFailed string
  | BadMaxConns int32
  | PoolFailed string
  | PingFailed string

definition digit :: "nat \<Rightarrow> char" where
  "digit n = ''0123456789'' ! (n mod 10)"

function string_of_nat :: "nat \<Rightarrow> string" where
  "string_of_nat n =
     (if n < 10 then [digit n] else string_of_nat (n div 10) @ [digit n])"
  by pat_completeness auto
termination
  by (relation "measure id") auto

declare string_of_nat.simps [simp del]

definition string_of_int :: "int \<Rightarrow> string" where
  "string_of_int i = (if i < 0 then CHR ''-'' # string_of_nat (nat (- i)) else string_of_nat (nat i))"

fun Error :: "connect_error \<Rightarrow> string" where
  "Error (ParseFailed err) = ''failed to parse connection string: '' @ err"
| "Error (BadMaxConns n) = ''MaxConns must be >= 1, got '' @ string_of_int (sint n)"
| "Error (PoolFailed err) = ''failed to create connection pool: '' @ err"
| "Error (PingFailed err) = ''failed to ping database: '' @ err"

section \<open>Options (options.go) and the constructor\<close>

datatype ConnectionOption =
    WithPoolConfig Config
  | WithMaxConns int32
  | WithMinConns int32
  | WithMaxConnLifetime duration
  | WithMaxConnIdleTime duration
  | WithAfterConnect "hook option"

fun apply_option :: "ConnectionOption \<Rightarrow> ConnectionProvider \<Rightarrow> ConnectionProvider" where
  "apply_option (WithPoolConfig config) p = p\<lparr>poolConfig := config\<rparr>"
| "apply_option (WithMaxConns maxConns) p =
     p\<lparr>poolConfig := (poolConfig p)\<lparr>MaxConns := maxConns\<rparr>\<rparr>"
| "apply_option (WithMinConns minConns) p =
     p\<lparr>poolConfig := (poolConfig p)\<lparr>MinConns := minConns\<rparr>\<rparr>"
| "apply_option (WithMaxConnLifetime d) p =
     p\<lparr>poolConfig := (poolConfig p)\<lparr>MaxConnLifetime := d\<rparr>\<rparr>"
| "apply_option (WithMaxConnIdleTime d) p =
     p\<lparr>poolConfig := (poolConfig p)\<lparr>MaxConnIdleTime := d\<rparr>\<rparr>"
| "apply_option (WithAfterConnect afterConnect) p =
     p\<lparr>poolConfig := (poolConfig p)\<lparr>AfterConnect := afterConnect\<rparr>\<rparr>"

text \<open>\<open>for _, opt := range opts { opt(provider) }\<close>\<close>

fun apply_options :: "ConnectionOption list \<Rightarrow> ConnectionProvider \<Rightarrow> ConnectionProvider" where
  "apply_options [] p = p"
| "apply_options (opt # opts) p = apply_options opts (apply_option opt p)"

definition NewConnectionProvider ::
  "(string \<Rightarrow> string) \<Rightarrow> ConnectionOption list \<Rightarrow> ConnectionProvider" where
  "NewConnectionProvider f opts =
     apply_options opts
       \<lparr>connectionStringFunc = f, poolConfig = zero_Config, pools = []\<rparr>"

text \<open>A program starts with a fresh provider, no pool allocated and an empty log.\<close>

definition new_world :: "(string \<Rightarrow> string) \<Rightarrow> ConnectionOption list \<Rightarrow> world" where
  "new_world f opts = \<lparr>prov = NewConnectionProvider f opts, next_pool = 0, trace = []\<rparr>"

section \<open>\<open>Connect\<close>\<close>

definition log :: "event \<Rightarrow> world \<Rightarrow> world" where
  "log e s = s\<lparr>trace := trace s @ [e]\<rparr>"

definition handle :: "pool \<Rightarrow> string \<Rightarrow> DatabaseConnection" where
  "handle pl databaseName = \<lparr>Pool = pl, provider = Some ThisProvider, dbName = databaseName\<rparr>"

text \<open>
  Lines 66 to 78: the provider's pool settings are written into the parsed
  configuration.  \<open>MaxConns\<close> is checked and copied only when it is not zero; the other
  four fields are assigned as they are.
\<close>

definition apply_pool_config :: "Config \<Rightarrow> Config \<Rightarrow> connect_error + Config" where
  "apply_pool_config pc config =
     (if MaxConns pc \<noteq> 0 \<and> sint (MaxConns pc) < 1 then Inl (BadMaxConns (MaxConns pc))
      else
        let config1 = (if MaxConns pc \<noteq> 0 then config\<lparr>MaxConns := MaxConns pc\<rparr> else config)
        in Inr (config1\<lparr>MinConns := MinConns pc,
                         MaxConnLifetime := MaxConnLifetime pc,
                         MaxConnIdleTime := MaxConnIdleTime pc,
                         AfterConnect := AfterConnect pc\<rparr>))"

text \<open>
  Lines 59 to 96, the part of \<open>Connect\<close> that runs with the write lock held once the
  name was found absent: build and parse the connection string, apply the settings,
  construct the pool, ping it (closing it when the ping fails) and register it.
\<close>

definition create_pool ::
  "pgxpool \<Rightarrow> context \<Rightarrow> string \<Rightarrow> world \<Rightarrow> (connect_error + DatabaseConnection) \<times> world" where
  "create_pool drv ctx databaseName s =
     (let connString = connectionStringFunc (prov s) databaseName;
          s1 = log (CallParseConfig connString) (log (CallConnectionStringFunc databaseName) s)
      in case ParseConfig drv connString of
           Inl err \<Rightarrow> (Inl (ParseFailed err), s1)
         | Inr parsed \<Rightarrow>
            (case apply_pool_config (poolConfig (prov s1)) parsed of
               Inl e \<Rightarrow> (Inl e, s1)
             | Inr config \<Rightarrow>
                (let s2 = log (CallConnectConfig config) s1
                 in case ConnectConfig drv (trace s1) ctx config of
                      Some err \<Rightarrow> (Inl (PoolFailed err), s2)
                    | None \<Rightarrow>
                       (let pl = next_pool s2;
                            s3 = log (CallPing pl) (s2\<lparr>next_pool := Suc pl\<rparr>)
                        in case Ping drv (trace s2) ctx pl of
                             Some err \<Rightarrow> (Inl (PingFailed err), log (CallClose pl) s3)
                           | None \<Rightarrow>
                              (Inr (handle pl databaseName),
                               s3\<lparr>prov := (prov s3)
                                    \<lparr>pools := AList.update databaseName pl (pools (prov s3))\<rparr>\<rparr>)))))"

text \<open>
  \<open>Connect\<close>: the lookup under the read lock, then, with the write lock, the second
  lookup and the construction.
\<close>

definition Connect ::
  "pgxpool \<Rightarrow> context \<Rightarrow> string \<Rightarrow> world \<Rightarrow> (connect_error + DatabaseConnection) \<times> world" where
  "Connect drv ctx databaseName s =
     (case map_of (pools (prov s)) databaseName of
        Some pl \<Rightarrow> (Inr (handle pl databaseName), s)
      | None \<Rightarrow>
         (case map_of (pools (prov s)) databaseName of
            Some pl \<Rightarrow> (Inr (handle pl databaseName), s)
          | None \<Rightarrow> create_pool drv ctx databaseName s))"

section \<open>The two \<open>Close\<close> methods\<close>

text \<open>
  \<open>(*ConnectionProvider).Close\<close>: close every pool of the map, then replace the map by
  an empty one.
\<close>

definition ConnectionProvider_Close :: "world \<Rightarrow> world" where
  "ConnectionProvider_Close s =
     s\<lparr>prov := (prov s)\<lparr>pools := []\<rparr>,
       trace := trace s @ map (\<lambda>(name, pl). CallClose pl) (pools (prov s))\<rparr>"

text \<open>
  \<open>(*DatabaseConnection).Close\<close>.  The result is the returned \<open>error\<close>, \<open>None\<close> for
  nil.
\<close>

definition DatabaseConnection_Close :: "DatabaseConnection \<Rightarrow> world \<Rightarrow> string option \<times> world" where
  "DatabaseConnection_Close c s =
     (if provider c = None then (None, log (CallClose (Pool c)) s)
      else
        let s1 = log (CallClose (Pool c)) s
        in (None, s1\<lparr>prov := (prov s1)\<lparr>pools := AList.delete (dbName c) (pools (prov s1))\<rparr>\<rparr>))"

text \<open>
  What the log says about a pool: it is closed once \<open>Close\<close> was called on it.  How
  often it was called is in the log too.
\<close>

definition is_closed :: "world \<Rightarrow> pool \<Rightarrow> bool" where
  "is_closed s pl = (CallClose pl \<in> set (trace s))"

text \<open>
  The registry is well formed when no name and no pool occurs twice in it and every
  registered pool has been allocated.  A fresh provider is so, and every operation keeps
  it so (\<open>wf_world_run\<close> below).
\<close>

definition wf_world :: "world \<Rightarrow> bool" where
  "wf_world s =
     (distinct (map fst (pools (prov s))) \<and> distinct (map snd (pools (prov s))) \<and>
      list_all (\<lambda>pl. pl < next_pool s) (map snd (pools (prov s))))"

section \<open>Programs over one provider\<close>

text \<open>
  A caller's program is a sequence of calls of the three exported operations; \<open>run\<close>
  executes it from a given world and keeps the world only.
\<close>

datatype operation =
    DoConnect "context" string
  | DoClose DatabaseConnection
  | DoCloseAll

fun step :: "pgxpool \<Rightarrow> world \<Rightarrow> operation \<Rightarrow> world" where
  "step drv s (DoConnect ctx databaseName) = snd (Connect drv ctx databaseName s)"
| "step drv s (DoClose c) = snd (DatabaseConnection_Close c s)"
| "step drv s DoCloseAll = ConnectionProvider_Close s"

definition run :: "pgxpool \<Rightarrow> operation list \<Rightarrow> world \<Rightarrow> world" where
  "run drv ops s = foldl (step drv) s ops"

section \<open>Which option sets which field\<close>

text \<open>
  For the statement that a later option overwrites an earlier one: the value an option
  gives to a field, if it sets that field at all (\<open>WithPoolConfig\<close> sets every field),
  and the value given by the last option of a sequence that sets the field (\<open>v\<close> when
  no option of the sequence does).
\<close>

fun sets_MaxConns :: "ConnectionOption \<Rightarrow> int32 option" where
  "sets_MaxConns (WithPoolConfig config) = Some (MaxConns config)"
| "sets_MaxConns (WithMaxConns maxConns) = Some maxConns"
| "sets_MaxConns opt = None"

fun sets_MinConns :: "ConnectionOption \<Rightarrow> int32 option" where
  "sets_MinConns (WithPoolConfig config) = Some (MinConns config)"
| "sets_MinConns (WithMinConns minConns) = Some minConns"
| "sets_MinConns opt = None"

fun sets_MaxConnLifetime :: "ConnectionOption \<Rightarrow> duration option" where
  "sets_MaxConnLifetime (WithPoolConfig config) = Some (MaxConnLifetime config)"
| "sets_MaxConnLifetime (WithMaxConnLifetime d) = Some d"
| "sets_MaxConnLifetime opt = None"

fun sets_MaxConnIdleTime :: "ConnectionOption \<Rightarrow> duration option" where
  "sets_MaxConnIdleTime (WithPoolConfig config) = Some (MaxConnIdleTime config)"
| "sets_MaxConnIdleTime (WithMaxConnIdleTime d) = Some d"
| "sets_MaxConnIdleTime opt = None"

fun sets_AfterConnect :: "ConnectionOption \<Rightarrow> hook option option" where
  "sets_AfterConnect (WithPoolConfig config) = Some (AfterConnect config)"
| "sets_AfterConnect (WithAfterConnect afterConnect) = Some afterConnect"
| "sets_AfterConnect opt = None"

definition last_set :: "('o \<Rightarrow> 'v option) \<Rightarrow> 'v \<Rightarrow> 'o list \<Rightarrow> 'v" where
  "last_set sets v opts =
     (case rev (List.map_filter sets opts) of [] \<Rightarrow> v | v' # vs \<Rightarrow> v')"

section \<open>A driver and a builder to run the provider on\<close>

text \<open>
  The tests run against a PostgreSQL server.  Here is a driver in its place: it parses
  \<open>postgres://\<close> strings only, with the pool defaults of pgx v4 (4 connections, one hour
  of lifetime, thirty minutes of idle time, in nanoseconds), refuses a cancelled context
  and the database \<open>nonexistent_db_12345\<close>, and answers the ping as its argument says.
\<close>

definition example_driver :: "bool \<Rightarrow> pgxpool" where
  "example_driver ping_ok =
     \<lparr>ParseConfig = (\<lambda>connString.
          if take 11 connString = ''postgres://''
          then Inr \<lparr>ConnConfig = connString, MaxConns = 4, MinConns = 0,
                    MaxConnLifetime = 3600000000000, MaxConnIdleTime = 1800000000000,
                    AfterConnect = None\<rparr>
          else Inl ''invalid dsn''),
      ConnectConfig = (\<lambda>evs ctx config.
          if ctx = Cancelled then Some ''context canceled''
          else if ConnConfig config = ''postgres://localhost/nonexistent_db_12345''
          then Some ''database does not exist'' else None),
      Ping = (\<lambda>evs ctx pl. if ping_ok then None else Some ''connection refused'')\<rparr>"

definition example_connString :: "string \<Rightarrow> string" where
  "example_connString name = ''postgres://localhost/'' @ name"

text \<open>
  The builder of the test "Connection error handling", whose string no driver parses.
\<close>

definition invalidConnStringFunc :: "string \<Rightarrow> string" where
  "invalidConnStringFunc name = ''invalid://connection/string''"


text \<open>The calls an operation added to the log: what follows the log it started from.\<close>

definition new_calls :: "world \<Rightarrow> world \<Rightarrow> event list" where
  "new_calls s s' = drop (length (trace s)) (trace s')"

text \<open>
  The two calls every construction starts with: the builder and \<open>ParseConfig\<close> on what
  it returned.
\<close>

definition parse_calls :: "ConnectionProvider \<Rightarrow> string \<Rightarrow> event list" where
  "parse_calls p databaseName =
     [CallConnectionStringFunc databaseName,
      CallParseConfig (connectionStringFunc p databaseName)]"

section \<open>Callers of \<open>Connect\<close> running at the same time\<close>

text \<open>
  \<open>Connect\<close> takes the provider's mutex twice.  Lines 39 to 48 look the name up between
  \<open>RLock\<close> and \<open>RUnlock\<close>; lines 51 to 96 run between \<open>Lock\<close> and the deferred
  \<open>Unlock\<close>, look the name up again and construct the pool when it is still absent.
  \<open>Connect\<close> above is the one section followed by the other.
\<close>

definition Connect_rlocked :: "string \<Rightarrow> world \<Rightarrow> DatabaseConnection option" where
  "Connect_rlocked databaseName s =
     (case map_of (pools (prov s)) databaseName of
        Some pl \<Rightarrow> Some (handle pl databaseName)
      | None \<Rightarrow> None)"

definition Connect_locked ::
  "pgxpool \<Rightarrow> context \<Rightarrow> string \<Rightarrow> world \<Rightarrow> (connect_error + DatabaseConnection) \<times> world" where
  "Connect_locked drv ctx databaseName s =
     (case map_of (pools (prov s)) databaseName of
        Some pl \<Rightarrow> (Inr (handle pl databaseName), s)
      | None \<Rightarrow> create_pool drv ctx databaseName s)"








section \<open>Options: basic facts\<close>

lemma apply_options_snoc:
  "apply_options (opts @ [opt]) p = apply_option opt (apply_options opts p)"
  by (induction opts arbitrary: p) simp_all

lemma apply_options_other:
  "connectionStringFunc (apply_options opts p) = connectionStringFunc p \<and>
   pools (apply_options opts p) = pools p"
proof (induction opts arbitrary: p)
  case Nil
  show ?case by simp
next
  case (Cons opt opts)
  show ?case by (cases opt) (simp_all add: Cons.IH)
qed

lemma apply_option_fields:
  "MaxConns (poolConfig (apply_option opt p)) =
     (case sets_MaxConns opt of Some v \<Rightarrow> v | None \<Rightarrow> MaxConns (poolConfig p))"
  "MinConns (poolConfig (apply_option opt p)) =
     (case sets_MinConns opt of Some v \<Rightarrow> v | None \<Rightarrow> MinConns (poolConfig p))"
  "MaxConnLifetime (poolConfig (apply_option opt p)) =
     (case sets_MaxConnLifetime opt of Some v \<Rightarrow> v | None \<Rightarrow> MaxConnLifetime (poolConfig p))"
  "MaxConnIdleTime (poolConfig (apply_option opt p)) =
     (case sets_MaxConnIdleTime opt of Some v \<Rightarrow> v | None \<Rightarrow> MaxConnIdleTime (poolConfig p))"
  "AfterConnect (poolConfig (apply_option opt p)) =
     (case sets_AfterConnect opt of Some v \<Rightarrow> v | None \<Rightarrow> AfterConnect (poolConfig p))"
  by (cases opt; simp)+

lemma last_set_Nil: "last_set sets v [] = v"
  by (simp add: last_set_def List.map_filter_def)

lemma last_set_snoc:
  "last_set sets v (opts @ [opt]) =
     (case sets opt of Some v' \<Rightarrow> v' | None \<Rightarrow> last_set sets v opts)"
  by (cases "sets opt") (simp_all add: last_set_def List.map_filter_def)

lemma apply_options_MaxConns:
  "MaxConns (poolConfig (apply_options opts p)) =
     last_set sets_MaxConns (MaxConns (poolConfig p)) opts"
  by (induction opts rule: rev_induct)
     (simp_all add: apply_option_fields apply_options_snoc last_set_snoc last_set_Nil
        split: option.split)

lemma apply_options_MinConns:
  "MinConns (poolConfig (apply_options opts p)) =
     last_set sets_MinConns (MinConns (poolConfig p)) opts"
  by (induction opts rule: rev_induct)
     (simp_all add: apply_option_fields apply_options_snoc last_set_snoc last_set_Nil
        split: option.split)

lemma apply_options_MaxConnLifetime:
  "MaxConnLifetime (poolConfig (apply_options opts p)) =
     last_set sets_MaxConnLifetime (MaxConnLifetime (poolConfig p)) opts"
  by (induction opts rule: rev_induct)
     (simp_all add: apply_option_fields apply_options_snoc last_set_snoc last_set_Nil
        split: option.split)

lemma apply_options_MaxConnIdleTime:
  "MaxConnIdleTime (poolConfig (apply_options opts p)) =
     last_set sets_MaxConnIdleTime (MaxConnIdleTime (poolConfig p)) opts"
  by (induction opts rule: rev_induct)
     (simp_all add: apply_option_fields apply_options_snoc last_set_snoc last_set_Nil
        split: option.split)

lemma apply_options_AfterConnect:
  "AfterConnect (poolConfig (apply_options opts p)) =
     last_set sets_AfterConnect (AfterConnect (poolConfig p)) opts"
  by (induction opts rule: rev_induct)
     (simp_all add: apply_option_fields apply_options_snoc last_set_snoc last_set_Nil
        split: option.split)

text \<open>
  C8.  Options are applied in the order given, and a later option overwrites an earlier
  one on the same field: in the provider \<open>NewConnectionProvider\<close> returns, each of the
  five pool settings has the value given by the last option of the sequence that sets it
  (\<open>WithPoolConfig\<close> sets all of them), and the zero value when no option sets it.
\<close>

theorem options_last_wins:
  "MaxConns (poolConfig (NewConnectionProvider f opts)) = last_set sets_MaxConns 0 opts \<and>
   MinConns (poolConfig (NewConnectionProvider f opts)) = last_set sets_MinConns 0 opts \<and>
   MaxConnLifetime (poolConfig (NewConnectionProvider f opts)) =
     last_set sets_MaxConnLifetime 0 opts \<and>
   MaxConnIdleTime (poolConfig (NewConnectionProvider f opts)) =
     last_set sets_MaxConnIdleTime 0 opts \<and>
   AfterConnect (poolConfig (NewConnectionProvider f opts)) =
     last_set sets_AfterConnect None opts"
  by (simp add: NewConnectionProvider_def zero_Config_def apply_options_MaxConns
      apply_options_MinConns apply_options_MaxConnLifetime apply_options_MaxConnIdleTime
      apply_options_AfterConnect)

section \<open>\<open>Connect\<close>: the two paths\<close>

lemma Connect_present:
  "map_of (pools (prov s)) databaseName = Some pl \<Longrightarrow>
   Connect drv ctx databaseName s = (Inr (handle pl databaseName), s)"
  by (simp add: Connect_def)

lemma Connect_absent:
  "map_of (pools (prov s)) databaseName = None \<Longrightarrow>
   Connect drv ctx databaseName s = create_pool drv ctx databaseName s"
  by (simp add: Connect_def)

lemma Connect_Inl_absent:
  "Connect drv ctx databaseName s = (Inl e, s') \<Longrightarrow> map_of (pools (prov s)) databaseName = None"
  by (cases "map_of (pools (prov s)) databaseName") (simp_all add: Connect_def)

lemma create_pool_Inr:
  assumes "create_pool drv ctx databaseName s = (Inr c, s')"
  shows "c = handle (next_pool s) databaseName"
    and "next_pool s' = Suc (next_pool s)"
    and "pools (prov s') = AList.update databaseName (next_pool s) (pools (prov s))"
    and "connectionStringFunc (prov s') = connectionStringFunc (prov s)"
    and "poolConfig (prov s') = poolConfig (prov s)"
    and "\<exists>parsed config.
           ParseConfig drv (connectionStringFunc (prov s) databaseName) = Inr parsed \<and>
           apply_pool_config (poolConfig (prov s)) parsed = Inr config \<and>
           trace s' = trace s @
             [CallConnectionStringFunc databaseName,
              CallParseConfig (connectionStringFunc (prov s) databaseName),
              CallConnectConfig config, CallPing (next_pool s)]"
  using assms
  by (auto simp: create_pool_def Let_def log_def split: sum.splits option.splits)

lemma create_pool_Inl:
  assumes "create_pool drv ctx databaseName s = (Inl e, s')"
  shows "prov s' = prov s"
    and "case e of
           ParseFailed err \<Rightarrow>
             ParseConfig drv (connectionStringFunc (prov s) databaseName) = Inl err \<and>
             next_pool s' = next_pool s \<and>
             trace s' = trace s @
               [CallConnectionStringFunc databaseName,
                CallParseConfig (connectionStringFunc (prov s) databaseName)]
         | BadMaxConns n \<Rightarrow>
             n = MaxConns (poolConfig (prov s)) \<and> n \<noteq> 0 \<and> sint n < 1 \<and>
             next_pool s' = next_pool s \<and>
             trace s' = trace s @
               [CallConnectionStringFunc databaseName,
                CallParseConfig (connectionStringFunc (prov s) databaseName)]
         | PoolFailed err \<Rightarrow>
             next_pool s' = next_pool s \<and>
             (\<exists>config. trace s' = trace s @
               [CallConnectionStringFunc databaseName,
                CallParseConfig (connectionStringFunc (prov s) databaseName),
                CallConnectConfig config] \<and>
                ConnectConfig drv
                  (trace s @
                     [CallConnectionStringFunc databaseName,
                      CallParseConfig (connectionStringFunc (prov s) databaseName)])
                  ctx config = Some err)
         | PingFailed err \<Rightarrow>
             next_pool s' = Suc (next_pool s) \<and>
             (\<exists>config. trace s' = trace s @
               [CallConnectionStringFunc databaseName,
                CallParseConfig (connectionStringFunc (prov s) databaseName),
                CallConnectConfig config, CallPing (next_pool s), CallClose (next_pool s)] \<and>
                Ping drv
                  (trace s @
                     [CallConnectionStringFunc databaseName,
                      CallParseConfig (connectionStringFunc (prov s) databaseName),
                      CallConnectConfig config])
                  ctx (next_pool s) = Some err)"
  using assms
  by (auto simp: create_pool_def Let_def log_def apply_pool_config_def
      split: sum.splits option.splits if_splits)

text \<open>
  \<open>Connect\<close> is its two locked sections one after the other, and \<open>create_pool\<close>
  stage by stage: what it returns and leaves behind for each answer of the driver.
\<close>

lemma Connect_sections:
  "Connect drv ctx databaseName s =
     (case Connect_rlocked databaseName s of
        Some c \<Rightarrow> (Inr c, s)
      | None \<Rightarrow> Connect_locked drv ctx databaseName s)"
  by (simp add: Connect_def Connect_rlocked_def Connect_locked_def split: option.splits)

lemma create_pool_parse_error:
  assumes "ParseConfig drv (connectionStringFunc (prov s) databaseName) = Inl err"
  shows "create_pool drv ctx databaseName s =
           (Inl (ParseFailed err), s\<lparr>trace := trace s @ parse_calls (prov s) databaseName\<rparr>)"
  using assms by (simp add: create_pool_def Let_def log_def parse_calls_def)

lemma create_pool_validation_error:
  assumes "ParseConfig drv (connectionStringFunc (prov s) databaseName) = Inr parsed"
    and "MaxConns (poolConfig (prov s)) \<noteq> 0" and "sint (MaxConns (poolConfig (prov s))) < 1"
  shows "create_pool drv ctx databaseName s =
           (Inl (BadMaxConns (MaxConns (poolConfig (prov s)))),
            s\<lparr>trace := trace s @ parse_calls (prov s) databaseName\<rparr>)"
  using assms
  by (simp add: create_pool_def Let_def log_def parse_calls_def apply_pool_config_def)

lemma create_pool_construct_error:
  assumes "ParseConfig drv (connectionStringFunc (prov s) databaseName) = Inr parsed"
    and "apply_pool_config (poolConfig (prov s)) parsed = Inr config"
    and "ConnectConfig drv (trace s @ parse_calls (prov s) databaseName) ctx config = Some err"
  shows "create_pool drv ctx databaseName s =
           (Inl (PoolFailed err),
            s\<lparr>trace := trace s @ parse_calls (prov s) databaseName @ [CallConnectConfig config]\<rparr>)"
  using assms by (simp add: create_pool_def Let_def log_def parse_calls_def)

lemma create_pool_ping_error:
  assumes "ParseConfig drv (connectionStringFunc (prov s) databaseName) = Inr parsed"
    and "apply_pool_config (poolConfig (prov s)) parsed = Inr config"
    and "ConnectConfig drv (trace s @ parse_calls (prov s) databaseName) ctx config = None"
    and "Ping drv (trace s @ parse_calls (prov s) databaseName @ [CallConnectConfig config])
           ctx (next_pool s) = Some err"
  shows "create_pool drv ctx databaseName s =
           (Inl (PingFailed err),
            s\<lparr>next_pool := Suc (next_pool s),
              trace := trace s @ parse_calls (prov s) databaseName @
                [CallConnectConfig config, CallPing (next_pool s), CallClose (next_pool s)]\<rparr>)"
  using assms by (simp add: create_pool_def Let_def log_def parse_calls_def)

lemma create_pool_success:
  assumes "ParseConfig drv (connectionStringFunc (prov s) databaseName) = Inr parsed"
    and "apply_pool_config (poolConfig (prov s)) parsed = Inr config"
    and "ConnectConfig drv (trace s @ parse_calls (prov s) databaseName) ctx config = None"
    and "Ping drv (trace s @ parse_calls (prov s) databaseName @ [CallConnectConfig config])
           ctx (next_pool s) = None"
  shows "create_pool drv ctx databaseName s =
           (Inr (handle (next_pool s) databaseName),
            s\<lparr>prov := (prov s)\<lparr>pools := AList.update databaseName (next_pool s) (pools (prov s))\<rparr>,
              next_pool := Suc (next_pool s),
              trace := trace s @ parse_calls (prov s) databaseName @
                [CallConnectConfig config, CallPing (next_pool s)]\<rparr>)"
  using assms by (simp add: create_pool_def Let_def log_def parse_calls_def)

lemma apply_pool_config_Inl:
  "apply_pool_config pc parsed = Inl e \<longleftrightarrow>
     e = BadMaxConns (MaxConns pc) \<and> MaxConns pc \<noteq> 0 \<and> sint (MaxConns pc) < 1"
  by (auto simp: apply_pool_config_def Let_def)

lemma create_pool_failure_stage:
  assumes "create_pool drv ctx databaseName s = (Inl e, s')"
  shows "case e of
           ParseFailed err \<Rightarrow>
             ParseConfig drv (connectionStringFunc (prov s) databaseName) = Inl err \<and>
             s' = s\<lparr>trace := trace s @ parse_calls (prov s) databaseName\<rparr>
         | BadMaxConns n \<Rightarrow>
             (\<exists>parsed. ParseConfig drv (connectionStringFunc (prov s) databaseName) = Inr parsed) \<and>
             n = MaxConns (poolConfig (prov s)) \<and> n \<noteq> 0 \<and> sint n < 1 \<and>
             s' = s\<lparr>trace := trace s @ parse_calls (prov s) databaseName\<rparr>
         | PoolFailed err \<Rightarrow>
             (\<exists>parsed config.
                ParseConfig drv (connectionStringFunc (prov s) databaseName) = Inr parsed \<and>
                apply_pool_config (poolConfig (prov s)) parsed = Inr config \<and>
                ConnectConfig drv (trace s @ parse_calls (prov s) databaseName) ctx config = Some err \<and>
                s' = s\<lparr>trace := trace s @ parse_calls (prov s) databaseName @
                         [CallConnectConfig config]\<rparr>)
         | PingFailed err \<Rightarrow>
             (\<exists>parsed config.
                ParseConfig drv (connectionStringFunc (prov s) databaseName) = Inr parsed \<and>
                apply_pool_config (poolConfig (prov s)) parsed = Inr config \<and>
                ConnectConfig drv (trace s @ parse_calls (prov s) databaseName) ctx config = None \<and>
                Ping drv (trace s @ parse_calls (prov s) databaseName @ [CallConnectConfig config])
                  ctx (next_pool s) = Some err \<and>
                s' = s\<lparr>next_pool := Suc (next_pool s),
                       trace := trace s @ parse_calls (prov s) databaseName @
                         [CallConnectConfig config, CallPing (next_pool s),
                          CallClose (next_pool s)]\<rparr>)"
proof (cases "ParseConfig drv (connectionStringFunc (prov s) databaseName)")
  case (Inl err)
  from assms create_pool_parse_error[OF Inl, of ctx] Inl show ?thesis
    by auto
next
  case (Inr parsed)
  show ?thesis
  proof (cases "apply_pool_config (poolConfig (prov s)) parsed")
    case (Inl e')
    then have bad: "MaxConns (poolConfig (prov s)) \<noteq> 0" "sint (MaxConns (poolConfig (prov s))) < 1"
      by (simp_all add: apply_pool_config_Inl)
    from assms create_pool_validation_error[OF Inr bad, of ctx] Inr bad show ?thesis
      by auto
  next
    case config: (Inr config)
    show ?thesis
    proof (cases "ConnectConfig drv (trace s @ parse_calls (prov s) databaseName) ctx config")
      case (Some err)
      from assms create_pool_construct_error[OF Inr config Some] Inr config Some show ?thesis
        by auto
    next
      case None
      show ?thesis
      proof (cases "Ping drv (trace s @ parse_calls (prov s) databaseName @ [CallConnectConfig config])
                      ctx (next_pool s)")
        case ping: None
        from assms create_pool_success[OF Inr config None ping] show ?thesis
          by simp
      next
        case ping: (Some err)
        from assms create_pool_ping_error[OF Inr config None ping] Inr config None ping
        show ?thesis
          by auto
      qed
    qed
  qed
qed

text \<open>The definitions to unfold when an operation is run on concrete input.\<close>

lemmas ex_defs = Connect_def create_pool_def new_world_def NewConnectionProvider_def example_driver_def
      example_connString_def zero_Config_def log_def apply_pool_config_def handle_def Let_def
      DatabaseConnection_Close_def ConnectionProvider_Close_def

section \<open>Reuse of a registered pool\<close>

text \<open>
  C2.  When a pool is registered under \<open>databaseName\<close>, \<open>Connect\<close> returns a handle
  bound to that pool and leaves the world as it is: no pool is allocated and nothing is
  added to the log, so neither the connection-string builder nor \<open>ParseConfig\<close> nor
  \<open>ConnectConfig\<close> is called.  In particular, after a \<open>Connect\<close> that succeeded, the
  pool it returned is registered, and a second \<open>Connect\<close> for the name (with any driver
  and context) returns that pool and changes nothing.
\<close>

theorem Connect_reuses_registered_pool:
  "(map_of (pools (prov s)) databaseName = Some pl \<longrightarrow>
      Connect drv ctx databaseName s = (Inr (handle pl databaseName), s)) \<and>
   (Connect drv ctx databaseName s = (Inr c, s') \<longrightarrow>
      map_of (pools (prov s')) databaseName = Some (Pool c) \<and>
      Connect drv' ctx' databaseName s' = (Inr (handle (Pool c) databaseName), s'))"
proof (intro conjI impI)
  assume "map_of (pools (prov s)) databaseName = Some pl"
  then show "Connect drv ctx databaseName s = (Inr (handle pl databaseName), s)"
    by (rule Connect_present)
next
  assume ok: "Connect drv ctx databaseName s = (Inr c, s')"
  show reg: "map_of (pools (prov s')) databaseName = Some (Pool c)"
  proof (cases "map_of (pools (prov s)) databaseName")
    case None
    with ok have "create_pool drv ctx databaseName s = (Inr c, s')"
      by (simp add: Connect_absent)
    from create_pool_Inr(1,3)[OF this] show ?thesis
      by (simp add: update_conv' handle_def)
  next
    case (Some pl)
    with ok show ?thesis
      by (auto simp: Connect_present handle_def)
  qed
  show "Connect drv' ctx' databaseName s' = (Inr (handle (Pool c) databaseName), s')"
    using reg by (rule Connect_present)
qed

theorem Connect_reuses_registered_pool_witness:
  "fst (Connect (example_driver True) Background ''postgres'' (new_world example_connString []))
     = Inr (handle 0 ''postgres'') \<and>
   map_of (pools (prov (snd (Connect (example_driver True) Background ''postgres''
     (new_world example_connString []))))) ''postgres'' = Some 0 \<and>
   Connect (example_driver False) Cancelled ''postgres''
     (snd (Connect (example_driver True) Background ''postgres'' (new_world example_connString [])))
     = (Inr (handle 0 ''postgres''),
        snd (Connect (example_driver True) Background ''postgres'' (new_world example_connString [])))"
proof -
  define r where "r = Connect (example_driver True) Background ''postgres'' (new_world example_connString [])"
  have a: "fst r = Inr (handle 0 ''postgres'')"
    unfolding r_def by (simp add: ex_defs)
  then have b: "Connect (example_driver True) Background ''postgres'' (new_world example_connString [])
      = (Inr (handle 0 ''postgres''), snd r)"
    by (simp add: r_def prod_eq_iff)
  from Connect_reuses_registered_pool[THEN conjunct2, rule_format, OF b]
  have c: "map_of (pools (prov (snd r))) ''postgres'' = Some 0"
    by (simp add: handle_def)
  from Connect_reuses_registered_pool[THEN conjunct1, rule_format, OF c]
  have "Connect (example_driver False) Cancelled ''postgres'' (snd r)
      = (Inr (handle 0 ''postgres''), snd r)" .
  with a c show ?thesis by (simp add: r_def)
qed

section \<open>Failure of \<open>Connect\<close>\<close>

text \<open>
  C3.  \<open>Connect\<close> fails exactly where a stage fails, and says which.  Read from the
  result: when \<open>Connect\<close> returns an error it returns no connection (the \<open>Inl\<close>
  result), the name was and is without an entry, the provider is unchanged, every pool
  allocated during the call is closed, and the error names its stage: a \<open>ParseFailed\<close>
  carries the parser's refusal, a \<open>BadMaxConns\<close> the rejected setting, a \<open>PoolFailed\<close>
  the refusal of \<open>ConnectConfig\<close> and a \<open>PingFailed\<close> the refusal of \<open>Ping\<close>, each
  with the message of that stage and with the world the call leaves behind.  Read from
  the driver, for a name without an entry: the first stage that refuses makes \<open>Connect\<close>
  return that stage's error and nothing else.  After a ping failure the pool that was
  constructed has been closed, the last two calls being the ping and that \<open>Close\<close>.
\<close>

theorem Connect_failure_leaves_nothing_behind:
  "(Connect drv ctx databaseName s = (Inl e, s') \<longrightarrow>
      map_of (pools (prov s)) databaseName = None \<and>
      prov s' = prov s \<and>
      map_of (pools (prov s')) databaseName = None \<and>
      (\<forall>pl. next_pool s \<le> pl \<and> pl < next_pool s' \<longrightarrow> is_closed s' pl) \<and>
      (case e of
         ParseFailed err' \<Rightarrow>
           Error e = ''failed to parse connection string: '' @ err' \<and>
           ParseConfig drv (connectionStringFunc (prov s) databaseName) = Inl err' \<and>
           s' = s\<lparr>trace := trace s @ parse_calls (prov s) databaseName\<rparr>
       | BadMaxConns n \<Rightarrow>
           Error e = ''MaxConns must be >= 1, got '' @ string_of_int (sint n) \<and>
           (\<exists>parsed'. ParseConfig drv (connectionStringFunc (prov s) databaseName) = Inr parsed') \<and>
           n = MaxConns (poolConfig (prov s)) \<and> n \<noteq> 0 \<and> sint n < 1 \<and>
           s' = s\<lparr>trace := trace s @ parse_calls (prov s) databaseName\<rparr>
       | PoolFailed err' \<Rightarrow>
           Error e = ''failed to create connection pool: '' @ err' \<and>
           (\<exists>parsed' config'.
              ParseConfig drv (connectionStringFunc (prov s) databaseName) = Inr parsed' \<and>
              apply_pool_config (poolConfig (prov s)) parsed' = Inr config' \<and>
              ConnectConfig drv (trace s @ parse_calls (prov s) databaseName) ctx config' = Some err' \<and>
              s' = s\<lparr>trace := trace s @ parse_calls (prov s) databaseName @
                       [CallConnectConfig config']\<rparr>)
       | PingFailed err' \<Rightarrow>
           Error e = ''failed to ping database: '' @ err' \<and>
           (\<exists>parsed' config'.
              ParseConfig drv (connectionStringFunc (prov s) databaseName) = Inr parsed' \<and>
              apply_pool_config (poolConfig (prov s)) parsed' = Inr config' \<and>
              ConnectConfig drv (trace s @ parse_calls (prov s) databaseName) ctx config' = None \<and>
              Ping drv (trace s @ parse_calls (prov s) databaseName @ [CallConnectConfig config'])
                ctx (next_pool s) = Some err' \<and>
              s' = s\<lparr>next_pool := Suc (next_pool s),
                     trace := trace s @ parse_calls (prov s) databaseName @
                       [CallConnectConfig config', CallPing (next_pool s),
                        CallClose (next_pool s)]\<rparr>))) \<and>
   (map_of (pools (prov s)) databaseName = None \<longrightarrow>
      (ParseConfig drv (connectionStringFunc (prov s) databaseName) = Inl err \<longrightarrow>
         Connect drv ctx databaseName s =
           (Inl (ParseFailed err), s\<lparr>trace := trace s @ parse_calls (prov s) databaseName\<rparr>)) \<and>
      (ParseConfig drv (connectionStringFunc (prov s) databaseName) = Inr parsed \<and>
       MaxConns (poolConfig (prov s)) \<noteq> 0 \<and> sint (MaxConns (poolConfig (prov s))) < 1 \<longrightarrow>
         Connect drv ctx databaseName s =
           (Inl (BadMaxConns (MaxConns (poolConfig (prov s)))),
            s\<lparr>trace := trace s @ parse_calls (prov s) databaseName\<rparr>)) \<and>
      (ParseConfig drv (connectionStringFunc (prov s) databaseName) = Inr parsed \<and>
       apply_pool_config (poolConfig (prov s)) parsed = Inr config \<and>
       ConnectConfig drv (trace s @ parse_calls (prov s) databaseName) ctx config = Some err \<longrightarrow>
         Connect drv ctx databaseName s =
           (Inl (PoolFailed err),
            s\<lparr>trace := trace s @ parse_calls (prov s) databaseName @ [CallConnectConfig config]\<rparr>)) \<and>
      (ParseConfig drv (connectionStringFunc (prov s) databaseName) = Inr parsed \<and>
       apply_pool_config (poolConfig (prov s)) parsed = Inr config \<and>
       ConnectConfig drv (trace s @ parse_calls (prov s) databaseName) ctx config = None \<and>
       Ping drv (trace s @ parse_calls (prov s) databaseName @ [CallConnectConfig config])
         ctx (next_pool s) = Some err \<longrightarrow>
         Connect drv ctx databaseName s =
           (Inl (PingFailed err),
            s\<lparr>next_pool := Suc (next_pool s),
              trace := trace s @ parse_calls (prov s) databaseName @
                [CallConnectConfig config, CallPing (next_pool s), CallClose (next_pool s)]\<rparr>)))"
proof (intro conjI impI)
  assume fails: "Connect drv ctx databaseName s = (Inl e, s')"
  then show absent: "map_of (pools (prov s)) databaseName = None"
    by (rule Connect_Inl_absent)
  with fails have cp: "create_pool drv ctx databaseName s = (Inl e, s')"
    by (simp add: Connect_absent)
  note st = create_pool_failure_stage[OF cp]
  show same: "prov s' = prov s"
    by (rule create_pool_Inl(1)[OF cp])
  from absent same show "map_of (pools (prov s')) databaseName = None"
    by simp
  show "\<forall>pl. next_pool s \<le> pl \<and> pl < next_pool s' \<longrightarrow> is_closed s' pl"
    using st by (cases e) (auto simp: is_closed_def less_Suc_eq_le)
  show "case e of
         ParseFailed err' \<Rightarrow>
           Error e = ''failed to parse connection string: '' @ err' \<and>
           ParseConfig drv (connectionStringFunc (prov s) databaseName) = Inl err' \<and>
           s' = s\<lparr>trace := trace s @ parse_calls (prov s) databaseName\<rparr>
       | BadMaxConns n \<Rightarrow>
           Error e = ''MaxConns must be >= 1, got '' @ string_of_int (sint n) \<and>
           (\<exists>parsed'. ParseConfig drv (connectionStringFunc (prov s) databaseName) = Inr parsed') \<and>
           n = MaxConns (poolConfig (prov s)) \<and> n \<noteq> 0 \<and> sint n < 1 \<and>
           s' = s\<lparr>trace := trace s @ parse_calls (prov s) databaseName\<rparr>
       | PoolFailed err' \<Rightarrow>
           Error e = ''failed to create connection pool: '' @ err' \<and>
           (\<exists>parsed' config'.
              ParseConfig drv (connectionStringFunc (prov s) databaseName) = Inr parsed' \<and>
              apply_pool_config (poolConfig (prov s)) parsed' = Inr config' \<and>
              ConnectConfig drv (trace s @ parse_calls (prov s) databaseName) ctx config' = Some err' \<and>
              s' = s\<lparr>trace := trace s @ parse_calls (prov s) databaseName @
                       [CallConnectConfig config']\<rparr>)
       | PingFailed err' \<Rightarrow>
           Error e = ''failed to ping database: '' @ err' \<and>
           (\<exists>parsed' config'.
              ParseConfig drv (connectionStringFunc (prov s) databaseName) = Inr parsed' \<and>
              apply_pool_config (poolConfig (prov s)) parsed' = Inr config' \<and>
              ConnectConfig drv (trace s @ parse_calls (prov s) databaseName) ctx config' = None \<and>
              Ping drv (trace s @ parse_calls (prov s) databaseName @ [CallConnectConfig config'])
                ctx (next_pool s) = Some err' \<and>
              s' = s\<lparr>next_pool := Suc (next_pool s),
                     trace := trace s @ parse_calls (prov s) databaseName @
                       [CallConnectConfig config', CallPing (next_pool s),
                        CallClose (next_pool s)]\<rparr>)"
    using st by (cases e) simp_all
next
  assume "map_of (pools (prov s)) databaseName = None"
    and "ParseConfig drv (connectionStringFunc (prov s) databaseName) = Inl err"
  then show "Connect drv ctx databaseName s =
      (Inl (ParseFailed err), s\<lparr>trace := trace s @ parse_calls (prov s) databaseName\<rparr>)"
    by (simp add: Connect_absent create_pool_parse_error)
next
  assume "map_of (pools (prov s)) databaseName = None"
    and "ParseConfig drv (connectionStringFunc (prov s) databaseName) = Inr parsed \<and>
       MaxConns (poolConfig (prov s)) \<noteq> 0 \<and> sint (MaxConns (poolConfig (prov s))) < 1"
  then show "Connect drv ctx databaseName s =
      (Inl (BadMaxConns (MaxConns (poolConfig (prov s)))),
       s\<lparr>trace := trace s @ parse_calls (prov s) databaseName\<rparr>)"
    using create_pool_validation_error[of drv s databaseName parsed ctx]
    by (simp add: Connect_absent)
next
  assume "map_of (pools (prov s)) databaseName = None"
    and "ParseConfig drv (connectionStringFunc (prov s) databaseName) = Inr parsed \<and>
       apply_pool_config (poolConfig (prov s)) parsed = Inr config \<and>
       ConnectConfig drv (trace s @ parse_calls (prov s) databaseName) ctx config = Some err"
  then show "Connect drv ctx databaseName s =
      (Inl (PoolFailed err),
       s\<lparr>trace := trace s @ parse_calls (prov s) databaseName @ [CallConnectConfig config]\<rparr>)"
    using create_pool_construct_error[of drv s databaseName parsed config ctx err]
    by (simp add: Connect_absent)
next
  assume "map_of (pools (prov s)) databaseName = None"
    and "ParseConfig drv (connectionStringFunc (prov s) databaseName) = Inr parsed \<and>
       apply_pool_config (poolConfig (prov s)) parsed = Inr config \<and>
       ConnectConfig drv (trace s @ parse_calls (prov s) databaseName) ctx config = None \<and>
       Ping drv (trace s @ parse_calls (prov s) databaseName @ [CallConnectConfig config])
         ctx (next_pool s) = Some err"
  then show "Connect drv ctx databaseName s =
      (Inl (PingFailed err),
       s\<lparr>next_pool := Suc (next_pool s),
         trace := trace s @ parse_calls (prov s) databaseName @
           [CallConnectConfig config, CallPing (next_pool s), CallClose (next_pool s)]\<rparr>)"
    using create_pool_ping_error[of drv s databaseName parsed config ctx err]
    by (simp add: Connect_absent)
qed

theorem Connect_failure_leaves_nothing_behind_witness:
  "fst (Connect (example_driver True) Background ''testdb'' (new_world invalidConnStringFunc []))
     = Inl (ParseFailed ''invalid dsn'') \<and>
   fst (Connect (example_driver True) Background ''postgres''
          (new_world example_connString [WithMaxConns (- 1)]))
     = Inl (BadMaxConns (- 1)) \<and>
   fst (Connect (example_driver True) Cancelled ''postgres'' (new_world example_connString []))
     = Inl (PoolFailed ''context canceled'') \<and>
   fst (Connect (example_driver False) Background ''postgres'' (new_world example_connString []))
     = Inl (PingFailed ''connection refused'') \<and>
   map_of (pools (prov (snd (Connect (example_driver False) Background ''postgres''
     (new_world example_connString []))))) ''postgres'' = None \<and>
   is_closed (snd (Connect (example_driver False) Background ''postgres''
     (new_world example_connString []))) 0"
proof -
  note t = Connect_failure_leaves_nothing_behind
  define parsed where "parsed =
     \<lparr>ConnConfig = ''postgres://localhost/postgres'', MaxConns = 4, MinConns = 0,
      MaxConnLifetime = 3600000000000, MaxConnIdleTime = 1800000000000,
      AfterConnect = None\<rparr>"
  define config where "config =
     \<lparr>ConnConfig = ''postgres://localhost/postgres'', MaxConns = 4, MinConns = 0,
      MaxConnLifetime = 0, MaxConnIdleTime = 0, AfterConnect = None\<rparr>"
  have absent: "map_of (pools (prov (new_world f opts))) name = None" for f opts name
    by (simp add: new_world_def NewConnectionProvider_def apply_options_other)
  have cs: "connectionStringFunc (prov (new_world f opts)) = f" for f opts
    by (simp add: new_world_def NewConnectionProvider_def apply_options_other)
  have parse_ok: "ParseConfig (example_driver b) (example_connString ''postgres'') = Inr parsed" for b
    by (simp add: example_driver_def example_connString_def parsed_def)
  have cfg0: "poolConfig (prov (new_world example_connString [])) = zero_Config"
    by (simp add: new_world_def NewConnectionProvider_def)
  have applied: "apply_pool_config zero_Config parsed = Inr config"
    by (simp add: apply_pool_config_def zero_Config_def parsed_def config_def)
  have "ParseConfig (example_driver True)
          (connectionStringFunc (prov (new_world invalidConnStringFunc [])) ''testdb'') =
        Inl ''invalid dsn''"
    by (simp add: cs example_driver_def invalidConnStringFunc_def)
  from t[THEN conjunct2, THEN mp, OF absent, THEN conjunct1, THEN mp, OF this]
  have r1: "fst (Connect (example_driver True) Background ''testdb''
      (new_world invalidConnStringFunc [])) = Inl (ParseFailed ''invalid dsn'')"
    by simp
  have "ParseConfig (example_driver True)
          (connectionStringFunc (prov (new_world example_connString [WithMaxConns (- 1)]))
             ''postgres'') = Inr parsed \<and>
        MaxConns (poolConfig (prov (new_world example_connString [WithMaxConns (- 1)]))) \<noteq> 0 \<and>
        sint (MaxConns (poolConfig (prov (new_world example_connString [WithMaxConns (- 1)])))) < 1"
    by (simp add: cs parse_ok) (simp add: new_world_def NewConnectionProvider_def)
  from t[THEN conjunct2, THEN mp, OF absent, THEN conjunct2, THEN conjunct1, THEN mp, OF this]
  have r2: "fst (Connect (example_driver True) Background ''postgres''
      (new_world example_connString [WithMaxConns (- 1)])) = Inl (BadMaxConns (- 1))"
    by (simp add: new_world_def NewConnectionProvider_def)
  have "ParseConfig (example_driver True)
          (connectionStringFunc (prov (new_world example_connString [])) ''postgres'') = Inr parsed \<and>
        apply_pool_config (poolConfig (prov (new_world example_connString []))) parsed = Inr config \<and>
        ConnectConfig (example_driver True)
          (trace (new_world example_connString []) @
             parse_calls (prov (new_world example_connString [])) ''postgres'')
          Cancelled config = Some ''context canceled''"
    by (simp add: cs parse_ok cfg0 applied) (simp add: example_driver_def)
  from t[THEN conjunct2, THEN mp, OF absent, THEN conjunct2, THEN conjunct2, THEN conjunct1,
      THEN mp, OF this]
  have r3: "fst (Connect (example_driver True) Cancelled ''postgres''
      (new_world example_connString [])) = Inl (PoolFailed ''context canceled'')"
    by simp
  have "ParseConfig (example_driver False)
          (connectionStringFunc (prov (new_world example_connString [])) ''postgres'') = Inr parsed \<and>
        apply_pool_config (poolConfig (prov (new_world example_connString []))) parsed = Inr config \<and>
        ConnectConfig (example_driver False)
          (trace (new_world example_connString []) @
             parse_calls (prov (new_world example_connString [])) ''postgres'')
          Background config = None \<and>
        Ping (example_driver False)
          (trace (new_world example_connString []) @
             parse_calls (prov (new_world example_connString [])) ''postgres'' @
             [CallConnectConfig config])
          Background (next_pool (new_world example_connString [])) = Some ''connection refused''"
    by (simp add: cs parse_ok cfg0 applied) (simp add: example_driver_def config_def)
  from t[THEN conjunct2, THEN mp, OF absent, THEN conjunct2, THEN conjunct2, THEN conjunct2,
      THEN mp, OF this]
  have r4: "Connect (example_driver False) Background ''postgres'' (new_world example_connString []) =
      (Inl (PingFailed ''connection refused''),
       snd (Connect (example_driver False) Background ''postgres''
              (new_world example_connString [])))"
    by simp
  have n: "next_pool (new_world example_connString []) = 0"
    by (simp add: new_world_def)
  note bk = t[THEN conjunct1, THEN mp, OF r4]
  have r5: "map_of (pools (prov (snd (Connect (example_driver False) Background ''postgres''
      (new_world example_connString []))))) ''postgres'' = None"
    by (rule bk[THEN conjunct2, THEN conjunct2, THEN conjunct1])
  have "next_pool (snd (Connect (example_driver False) Background ''postgres''
      (new_world example_connString []))) = Suc 0"
    using bk[THEN conjunct2, THEN conjunct2, THEN conjunct2, THEN conjunct2]
    by (auto simp: n)
  with bk[THEN conjunct2, THEN conjunct2, THEN conjunct2, THEN conjunct1]
  have r6: "is_closed (snd (Connect (example_driver False) Background ''postgres''
      (new_world example_connString []))) 0"
    by (simp add: n)
  have r7: "fst (Connect (example_driver False) Background ''postgres''
      (new_world example_connString [])) = Inl (PingFailed ''connection refused'')"
    by (rule arg_cong[where f = fst, OF r4, simplified fst_conv])
  from r1 r2 r3 r5 r6 r7 show ?thesis
    by blast
qed

section \<open>The configuration handed to the driver\<close>

text \<open>
  C10.  In a first \<open>Connect\<close> for a name that succeeds, the configuration passed to
  \<open>ConnectConfig\<close> is the parsed one with \<open>MinConns\<close>, \<open>MaxConnLifetime\<close>,
  \<open>MaxConnIdleTime\<close> and \<open>AfterConnect\<close> replaced by the provider's values whatever
  they are (zero and nil included, so that what the connection string said is lost), and
  with \<open>MaxConns\<close> replaced only when the provider's value is not zero.
\<close>

theorem Connect_copies_pool_settings:
  assumes "map_of (pools (prov s)) databaseName = None"
    and "Connect drv ctx databaseName s = (Inr c, s')"
    and "ParseConfig drv (connectionStringFunc (prov s) databaseName) = Inr parsed"
  shows "trace s' = trace s @
           [CallConnectionStringFunc databaseName,
            CallParseConfig (connectionStringFunc (prov s) databaseName),
            CallConnectConfig
              (parsed\<lparr>MaxConns := (if MaxConns (poolConfig (prov s)) \<noteq> 0
                                    then MaxConns (poolConfig (prov s)) else MaxConns parsed),
                      MinConns := MinConns (poolConfig (prov s)),
                      MaxConnLifetime := MaxConnLifetime (poolConfig (prov s)),
                      MaxConnIdleTime := MaxConnIdleTime (poolConfig (prov s)),
                      AfterConnect := AfterConnect (poolConfig (prov s))\<rparr>),
            CallPing (Pool c)]"
proof -
  from assms(1,2) have cp: "create_pool drv ctx databaseName s = (Inr c, s')"
    by (simp add: Connect_absent)
  from create_pool_Inr(1)[OF cp] create_pool_Inr(6)[OF cp] assms(3)
  show ?thesis
    by (auto simp: apply_pool_config_def handle_def Let_def split: if_splits)
qed

theorem Connect_copies_pool_settings_witness:
  "ParseConfig (example_driver True) ''postgres://localhost/postgres'' =
     Inr \<lparr>ConnConfig = ''postgres://localhost/postgres'', MaxConns = 4, MinConns = 0,
          MaxConnLifetime = 3600000000000, MaxConnIdleTime = 1800000000000,
          AfterConnect = None\<rparr> \<and>
   trace (snd (Connect (example_driver True) Background ''postgres''
     (new_world example_connString [WithMinConns 2]))) =
     [CallConnectionStringFunc ''postgres'',
      CallParseConfig ''postgres://localhost/postgres'',
      CallConnectConfig
        \<lparr>ConnConfig = ''postgres://localhost/postgres'', MaxConns = 4, MinConns = 2,
         MaxConnLifetime = 0, MaxConnIdleTime = 0, AfterConnect = None\<rparr>,
      CallPing 0]"
proof -
  define w where "w = new_world example_connString [WithMinConns 2]"
  define r where "r = Connect (example_driver True) Background ''postgres'' w"
  have a: "fst r = Inr (handle 0 ''postgres'')"
    unfolding r_def w_def by (simp add: ex_defs)
  then have b: "Connect (example_driver True) Background ''postgres'' w
      = (Inr (handle 0 ''postgres''), snd r)"
    by (simp add: r_def prod_eq_iff)
  have c: "map_of (pools (prov w)) ''postgres'' = None"
    by (simp add: w_def new_world_def NewConnectionProvider_def)
  have d: "ParseConfig (example_driver True) (connectionStringFunc (prov w) ''postgres'') =
     Inr \<lparr>ConnConfig = ''postgres://localhost/postgres'', MaxConns = 4, MinConns = 0,
          MaxConnLifetime = 3600000000000, MaxConnIdleTime = 1800000000000,
          AfterConnect = None\<rparr>"
    by (simp add: w_def new_world_def NewConnectionProvider_def example_driver_def
        example_connString_def)
  have e: "ParseConfig (example_driver True) ''postgres://localhost/postgres'' =
     Inr \<lparr>ConnConfig = ''postgres://localhost/postgres'', MaxConns = 4, MinConns = 0,
          MaxConnLifetime = 3600000000000, MaxConnIdleTime = 1800000000000,
          AfterConnect = None\<rparr>"
    by (simp add: example_driver_def)
  from Connect_copies_pool_settings[OF c b d] e show ?thesis
    by (simp add: r_def w_def new_world_def NewConnectionProvider_def zero_Config_def
        example_connString_def handle_def)
qed

section \<open>Closing a handle\<close>

lemma DatabaseConnection_Close_tracked:
  "provider c \<noteq> None \<Longrightarrow>
   DatabaseConnection_Close c s =
     (None, s\<lparr>prov := (prov s)\<lparr>pools := AList.delete (dbName c) (pools (prov s))\<rparr>,
              trace := trace s @ [CallClose (Pool c)]\<rparr>)"
  by (cases "provider c") (simp_all add: DatabaseConnection_Close_def log_def Let_def)

lemma DatabaseConnection_Close_untracked:
  "provider c = None \<Longrightarrow>
   DatabaseConnection_Close c s = (None, s\<lparr>trace := trace s @ [CallClose (Pool c)]\<rparr>)"
  by (simp add: DatabaseConnection_Close_def log_def)

lemma DatabaseConnection_Close_fields:
  "fst (DatabaseConnection_Close c s) = None"
  "next_pool (snd (DatabaseConnection_Close c s)) = next_pool s"
  "trace (snd (DatabaseConnection_Close c s)) = trace s @ [CallClose (Pool c)]"
  "pools (prov (snd (DatabaseConnection_Close c s))) =
     (if provider c = None then pools (prov s) else AList.delete (dbName c) (pools (prov s)))"
  "connectionStringFunc (prov (snd (DatabaseConnection_Close c s))) = connectionStringFunc (prov s)"
  "poolConfig (prov (snd (DatabaseConnection_Close c s))) = poolConfig (prov s)"
  by (simp_all add: DatabaseConnection_Close_def log_def Let_def)


text \<open>
  C9.  \<open>Close\<close> on a handle that has the provider's back pointer returns nil, calls
  \<open>Close\<close> on the handle's own pool and deletes the registry entry of the handle's
  database name, whatever pool that entry holds: no other pool is closed by the call.  So
  when a newer pool was registered under the name after the handle was closed, closing the
  handle again takes the newer pool out of the registry and leaves it open.
\<close>

theorem DatabaseConnection_Close_deletes_whatever_is_registered:
  assumes "provider c \<noteq> None"
  shows "DatabaseConnection_Close c s =
           (None, s\<lparr>prov := (prov s)\<lparr>pools := AList.delete (dbName c) (pools (prov s))\<rparr>,
                    trace := trace s @ [CallClose (Pool c)]\<rparr>) \<and>
         map_of (pools (prov (snd (DatabaseConnection_Close c s)))) (dbName c) = None \<and>
         (\<forall>pl. pl \<noteq> Pool c \<longrightarrow>
            is_closed (snd (DatabaseConnection_Close c s)) pl = is_closed s pl)"
proof -
  note eq = DatabaseConnection_Close_tracked[OF assms, of s]
  show ?thesis
    unfolding eq by (simp add: is_closed_def delete_conv')
qed

lemmas run_defs = run_def ex_defs

theorem DatabaseConnection_Close_deletes_whatever_is_registered_witness:
  "pools (prov (run (example_driver True)
      [DoConnect Background ''postgres'', DoClose (handle 0 ''postgres''),
       DoConnect Background ''postgres'']
      (new_world example_connString []))) = [(''postgres'', 1)] \<and>
   pools (prov (run (example_driver True)
      [DoConnect Background ''postgres'', DoClose (handle 0 ''postgres''),
       DoConnect Background ''postgres'', DoClose (handle 0 ''postgres'')]
      (new_world example_connString []))) = [] \<and>
   \<not> is_closed (run (example_driver True)
      [DoConnect Background ''postgres'', DoClose (handle 0 ''postgres''),
       DoConnect Background ''postgres'', DoClose (handle 0 ''postgres'')]
      (new_world example_connString [])) 1"
proof -
  define s where "s = run (example_driver True)
      [DoConnect Background ''postgres'', DoClose (handle 0 ''postgres''),
       DoConnect Background ''postgres'']
      (new_world example_connString [])"
  have a: "pools (prov s) = [(''postgres'', 1)]"
    unfolding s_def by (simp add: run_defs)
  have b: "\<not> is_closed s 1"
    unfolding s_def by (simp add: run_defs is_closed_def)
  have c: "provider (handle 0 ''postgres'') \<noteq> None" "Pool (handle 0 ''postgres'') = 0"
    "dbName (handle 0 ''postgres'') = ''postgres''"
    by (simp_all add: handle_def)
  have d: "run (example_driver True)
      [DoConnect Background ''postgres'', DoClose (handle 0 ''postgres''),
       DoConnect Background ''postgres'', DoClose (handle 0 ''postgres'')]
      (new_world example_connString []) = snd (DatabaseConnection_Close (handle 0 ''postgres'') s)"
    unfolding s_def by (simp add: run_def)
  note t = DatabaseConnection_Close_deletes_whatever_is_registered[OF c(1), of s]
  have "pools (prov (snd (DatabaseConnection_Close (handle 0 ''postgres'') s))) = []"
    using t[THEN conjunct1] a by (simp add: c AList.delete_eq)
  moreover have "\<not> is_closed (snd (DatabaseConnection_Close (handle 0 ''postgres'') s)) 1"
    using t[THEN conjunct2, THEN conjunct2] b by (simp add: c)
  ultimately show ?thesis using a by (simp add: d s_def[symmetric])
qed






section \<open>Well-formed registries\<close>

lemma update_absent: "map_of al k = None \<Longrightarrow> AList.update k v al = al @ [(k, v)]"
  by (induction al) (auto split: if_splits)

lemma map_of_None_iff: "map_of al k = None \<longleftrightarrow> k \<notin> fst ` set al"
  by (simp add: map_of_eq_None_iff)

lemma wf_world_new: "wf_world (new_world f opts)"
  by (simp add: wf_world_def new_world_def NewConnectionProvider_def apply_options_other)

lemma wf_world_create_pool:
  assumes "wf_world s" and "map_of (pools (prov s)) databaseName = None"
  shows "wf_world (snd (create_pool drv ctx databaseName s))"
proof (cases "fst (create_pool drv ctx databaseName s)")
  case (Inl e)
  then have cp: "create_pool drv ctx databaseName s = (Inl e, snd (create_pool drv ctx databaseName s))"
    by (simp add: prod_eq_iff)
  from create_pool_Inl[OF cp] have "prov (snd (create_pool drv ctx databaseName s)) = prov s"
    and "next_pool s \<le> next_pool (snd (create_pool drv ctx databaseName s))"
    by (cases e; auto)+
  with assms(1) show ?thesis
    by (auto simp: wf_world_def list_all_iff)
next
  case (Inr c)
  then have cp: "create_pool drv ctx databaseName s = (Inr c, snd (create_pool drv ctx databaseName s))"
    by (simp add: prod_eq_iff)
  from create_pool_Inr(2,3)[OF cp] assms show ?thesis
    by (auto simp: wf_world_def list_all_iff update_absent map_of_None_iff)
qed

lemma wf_world_Connect: "wf_world s \<Longrightarrow> wf_world (snd (Connect drv ctx databaseName s))"
  by (cases "map_of (pools (prov s)) databaseName")
     (simp_all add: Connect_absent Connect_present wf_world_create_pool)

lemma wf_world_DatabaseConnection_Close:
  "wf_world s \<Longrightarrow> wf_world (snd (DatabaseConnection_Close c s))"
  by (auto simp: wf_world_def DatabaseConnection_Close_fields list_all_iff AList.delete_eq
      distinct_map_filter)

lemma wf_world_ConnectionProvider_Close: "wf_world (ConnectionProvider_Close s)"
  by (simp add: wf_world_def ConnectionProvider_Close_def)

lemma wf_world_step: "wf_world s \<Longrightarrow> wf_world (step drv s op)"
  by (cases op)
     (simp_all add: wf_world_Connect wf_world_DatabaseConnection_Close
        wf_world_ConnectionProvider_Close)

lemma wf_world_run: "wf_world s \<Longrightarrow> wf_world (run drv ops s)"
  unfolding run_def by (induction ops arbitrary: s) (simp_all add: wf_world_step)

lemma Connect_Inr_allocated:
  assumes "wf_world s" and "Connect drv ctx databaseName s = (Inr c, s')"
  shows "Pool c < next_pool s'"
proof (cases "map_of (pools (prov s)) databaseName")
  case None
  with assms(2) have cp: "create_pool drv ctx databaseName s = (Inr c, s')"
    by (simp add: Connect_absent)
  from create_pool_Inr(1,2)[OF cp] show ?thesis
    by (simp add: handle_def)
next
  case (Some pl)
  then have "(databaseName, pl) \<in> set (pools (prov s))"
    by (rule map_of_SomeD)
  with assms(1) have "pl < next_pool s"
    by (auto simp: wf_world_def list_all_iff)
  with Some assms(2) show ?thesis
    by (auto simp: Connect_present handle_def)
qed

section \<open>\<open>Close\<close>, then \<open>Connect\<close> again\<close>

text \<open>
  C5.  Take a handle that \<open>Connect\<close> returned.  Its \<open>Close\<close> returns nil, makes one
  call, the \<open>Close\<close> of the handle's pool, and deletes the entry of the database name, so
  the name has no entry afterwards.  A \<open>Connect\<close> for the name that follows therefore
  takes the construction path; when it succeeds, a pool construction is among its calls
  and the pool it returns and registers is the next one allocated, not the closed one.
\<close>

theorem Close_then_Connect_constructs_anew:
  assumes "wf_world s"
    and "Connect drv ctx databaseName s = (Inr c, s1)"
  shows "fst (DatabaseConnection_Close c s1) = None \<and>
         new_calls s1 (snd (DatabaseConnection_Close c s1)) = [CallClose (Pool c)] \<and>
         is_closed (snd (DatabaseConnection_Close c s1)) (Pool c) \<and>
         pools (prov (snd (DatabaseConnection_Close c s1))) =
           AList.delete databaseName (pools (prov s1)) \<and>
         map_of (pools (prov (snd (DatabaseConnection_Close c s1)))) databaseName = None \<and>
         Connect drv' ctx' databaseName (snd (DatabaseConnection_Close c s1)) =
           create_pool drv' ctx' databaseName (snd (DatabaseConnection_Close c s1)) \<and>
         (\<forall>c' s3. Connect drv' ctx' databaseName (snd (DatabaseConnection_Close c s1)) = (Inr c', s3)
            \<longrightarrow> Pool c' \<noteq> Pool c \<and> Pool c' = next_pool s1 \<and>
                (\<exists>config. CallConnectConfig config
                   \<in> set (new_calls (snd (DatabaseConnection_Close c s1)) s3)) \<and>
                map_of (pools (prov s3)) databaseName = Some (Pool c'))"
proof -
  define s2 where "s2 = snd (DatabaseConnection_Close c s1)"
  have tracked: "provider c = Some ThisProvider" and name: "dbName c = databaseName"
    using assms(2)
    by (cases "map_of (pools (prov s)) databaseName";
        auto simp: Connect_present Connect_absent handle_def dest: create_pool_Inr(1))+
  have alloc: "Pool c < next_pool s1"
    using assms by (rule Connect_Inr_allocated)
  have f: "fst (DatabaseConnection_Close c s1) = None"
    "next_pool s2 = next_pool s1"
    "trace s2 = trace s1 @ [CallClose (Pool c)]"
    "pools (prov s2) = AList.delete databaseName (pools (prov s1))"
    using tracked name by (simp_all add: s2_def DatabaseConnection_Close_fields)
  have absent: "map_of (pools (prov s2)) databaseName = None"
    by (simp add: f delete_conv')
  have slow: "Connect drv' ctx' databaseName s2 = create_pool drv' ctx' databaseName s2"
    using absent by (rule Connect_absent)
  have again: "Pool c' \<noteq> Pool c \<and> Pool c' = next_pool s1 \<and>
                (\<exists>config. CallConnectConfig config \<in> set (new_calls s2 s3)) \<and>
                map_of (pools (prov s3)) databaseName = Some (Pool c')"
    if "Connect drv' ctx' databaseName s2 = (Inr c', s3)" for c' s3
  proof -
    from that slow have cp: "create_pool drv' ctx' databaseName s2 = (Inr c', s3)"
      by simp
    from create_pool_Inr(1)[OF cp] have p: "Pool c' = next_pool s1"
      by (simp add: handle_def f)
    from create_pool_Inr(6)[OF cp] have "\<exists>config. CallConnectConfig config \<in> set (new_calls s2 s3)"
      by (auto simp: new_calls_def)
    moreover from create_pool_Inr(3)[OF cp] p have "map_of (pools (prov s3)) databaseName = Some (Pool c')"
      by (simp add: update_conv' f)
    ultimately show ?thesis using p alloc by simp
  qed
  have "new_calls s1 s2 = [CallClose (Pool c)]" "is_closed s2 (Pool c)"
    by (simp_all add: new_calls_def is_closed_def f)
  with f absent slow again show ?thesis
    unfolding s2_def[symmetric] by blast
qed

theorem Close_then_Connect_constructs_anew_witness:
  "wf_world (new_world example_connString []) \<and>
   fst (Connect (example_driver True) Background ''postgres'' (new_world example_connString []))
     = Inr (handle 0 ''postgres'') \<and>
   map_of (pools (prov (snd (DatabaseConnection_Close (handle 0 ''postgres'')
     (snd (Connect (example_driver True) Background ''postgres''
        (new_world example_connString [])))))))
     ''postgres'' = None \<and>
   fst (Connect (example_driver True) Background ''postgres''
     (snd (DatabaseConnection_Close (handle 0 ''postgres'')
       (snd (Connect (example_driver True) Background ''postgres''
          (new_world example_connString []))))))
     = Inr (handle 1 ''postgres'')"
proof -
  define r where "r = Connect (example_driver True) Background ''postgres'' (new_world example_connString [])"
  define s2 where "s2 = snd (DatabaseConnection_Close (handle 0 ''postgres'') (snd r))"
  have a: "fst r = Inr (handle 0 ''postgres'')"
    unfolding r_def by (simp add: ex_defs)
  then have b: "Connect (example_driver True) Background ''postgres'' (new_world example_connString [])
      = (Inr (handle 0 ''postgres''), snd r)"
    by (simp add: r_def prod_eq_iff)
  note t = Close_then_Connect_constructs_anew[OF wf_world_new b,
      of "example_driver True" Background, unfolded s2_def[symmetric]]
  from t have c: "map_of (pools (prov s2)) ''postgres'' = None"
    by blast
  have d: "fst (Connect (example_driver True) Background ''postgres'' s2) = Inr (handle 1 ''postgres'')"
    unfolding s2_def r_def by (simp add: ex_defs AList.delete_eq)
  from a c d wf_world_new show ?thesis
    unfolding s2_def r_def by simp
qed

section \<open>Closing the provider\<close>

text \<open>
  C7.  \<open>Close\<close> on the provider leaves the registry empty; the calls it makes are one
  \<open>Close\<close> for each entry of the registry, so every registered pool is closed afterwards.
  A second \<open>Close\<close> changes nothing, and so does a \<open>Close\<close> on an empty registry: no call
  is made at all.  In a well-formed registry no pool is registered twice, and then no two
  of the calls close the same pool.
\<close>

theorem ConnectionProvider_Close_closes_all:
  "pools (prov (ConnectionProvider_Close s)) = [] \<and>
   new_calls s (ConnectionProvider_Close s) = map (\<lambda>(name, pl). CallClose pl) (pools (prov s)) \<and>
   list_all (is_closed (ConnectionProvider_Close s)) (map snd (pools (prov s))) \<and>
   ConnectionProvider_Close (ConnectionProvider_Close s) = ConnectionProvider_Close s \<and>
   (pools (prov s) = [] \<longrightarrow> ConnectionProvider_Close s = s) \<and>
   (wf_world s \<longrightarrow> distinct (new_calls s (ConnectionProvider_Close s)))"
proof -
  have "distinct (map (\<lambda>(name, pl). CallClose pl) ps)" if "distinct (map snd ps)"
    for ps :: "(string \<times> pool) list"
  proof -
    have "map (\<lambda>(name, pl). CallClose pl) ps = map CallClose (map snd ps)"
      by (simp add: case_prod_beta)
    with that show ?thesis
      by (simp add: distinct_map inj_on_def del: map_map)
  qed
  then have "wf_world s \<longrightarrow> distinct (new_calls s (ConnectionProvider_Close s))"
    by (simp add: wf_world_def new_calls_def ConnectionProvider_Close_def)
  moreover have "list_all (is_closed (ConnectionProvider_Close s)) (map snd (pools (prov s)))"
    by (force simp: list_all_iff is_closed_def ConnectionProvider_Close_def)
  ultimately show ?thesis
    by (simp add: ConnectionProvider_Close_def new_calls_def)
qed

theorem ConnectionProvider_Close_closes_all_witness:
  "pools (prov (run (example_driver True)
      [DoConnect Background ''postgres'', DoConnect Background ''template1'']
      (new_world example_connString []))) = [(''postgres'', 0), (''template1'', 1)] \<and>
   new_calls
     (run (example_driver True)
        [DoConnect Background ''postgres'', DoConnect Background ''template1'']
        (new_world example_connString []))
     (ConnectionProvider_Close (run (example_driver True)
        [DoConnect Background ''postgres'', DoConnect Background ''template1'']
        (new_world example_connString []))) = [CallClose 0, CallClose 1] \<and>
   ConnectionProvider_Close (new_world example_connString []) = new_world example_connString []"
proof -
  define s where "s = run (example_driver True)
      [DoConnect Background ''postgres'', DoConnect Background ''template1'']
      (new_world example_connString [])"
  have a: "pools (prov s) = [(''postgres'', 0), (''template1'', 1)]"
    unfolding s_def by (simp add: run_defs)
  have wf: "wf_world s"
    unfolding s_def by (intro wf_world_run wf_world_new)
  have e: "pools (prov (new_world example_connString [])) = []"
    by (simp add: new_world_def NewConnectionProvider_def)
  from ConnectionProvider_Close_closes_all[of s] wf a
  have "distinct (new_calls s (ConnectionProvider_Close s))"
    and "new_calls s (ConnectionProvider_Close s) = [CallClose 0, CallClose 1]"
    by simp_all
  moreover from ConnectionProvider_Close_closes_all[of "new_world example_connString []"] e
  have "ConnectionProvider_Close (new_world example_connString []) = new_world example_connString []"
    by blast
  ultimately show ?thesis
    using a unfolding s_def[symmetric] by simp
qed

section \<open>Validation of \<open>MaxConns\<close>\<close>









section \<open>Concurrent callers of \<open>Connect\<close>\<close>







end
